theory Spec2Isabelle
  imports Main "HOL-Library.AList"
begin

section \<open>The managed document store\<close>

text \<open>
  A stored document is a JavaScript object: an ordered list of (field, value) pairs with
  distinct keys. The records this application writes (\<open>doctorData\<close>, \<open>adminData\<close>) hold
  string values only, so values are strings. A collection is the list of its documents,
  each paired with the identifier the store assigned to it, in the order in which the
  store returns them.
\<close>

type_synonym fields = "(string \<times> string) list"
type_synonym document = "string \<times> fields"

text \<open>
  \<open>query(collection(db, c), where(f1, '==', v1), where(f2, '==', v2))\<close> is the value
  \<open>Query c [(f1, v1), (f2, v2)]\<close>.
\<close>

datatype query = Query string "(string \<times> string) list"

datatype store_call =
    GetDocs query
  | AddDoc string fields
  | DeleteDoc string string

text \<open>
  The store is external. Its state is the content of each collection; \<open>rejects\<close> says
  whether the store rejects the requests made of it (network or store error);
  \<open>auto_id\<close> is the identifier it gives to the next created document; \<open>calls\<close> logs
  every request the application issues.
\<close>

record firestore =
  colls :: "string \<Rightarrow> document list"
  rejects :: bool
  auto_id :: string
  calls :: "store_call list"

datatype store_error = StoreError

definition satisfies :: "(string \<times> string) list \<Rightarrow> document \<Rightarrow> bool" where
  "satisfies ws d = list_all (\<lambda>(f, v). map_of (snd d) f = Some v) ws"

fun getDocs :: "query \<Rightarrow> firestore \<Rightarrow> (store_error + document list) \<times> firestore" where
  "getDocs (Query c ws) fs =
     (let fs' = fs\<lparr>calls := calls fs @ [GetDocs (Query c ws)]\<rparr>
      in if rejects fs then (Inl StoreError, fs')
         else (Inr (filter (satisfies ws) (colls fs c)), fs'))"

definition addDoc :: "string \<Rightarrow> fields \<Rightarrow> firestore \<Rightarrow> (store_error + unit) \<times> firestore" where
  "addDoc c dat fs =
     (let fs' = fs\<lparr>calls := calls fs @ [AddDoc c dat]\<rparr>
      in if rejects fs then (Inl StoreError, fs')
         else (Inr (), fs'\<lparr>colls := (colls fs)(c := colls fs c @ [(auto_id fs, dat)])\<rparr>))"

definition deleteDoc :: "string \<Rightarrow> string \<Rightarrow> firestore \<Rightarrow> (store_error + unit) \<times> firestore" where
  "deleteDoc c i fs =
     (let fs' = fs\<lparr>calls := calls fs @ [DeleteDoc c i]\<rparr>
      in if rejects fs then (Inl StoreError, fs')
         else (Inr (), fs'\<lparr>colls := (colls fs)(c := filter (\<lambda>d. fst d \<noteq> i) (colls fs c))\<rparr>))"

section \<open>The login page (\<open>Login\<close>, store-backed)\<close>

text \<open>
  What a \<open>setTimeout\<close> of the login page does when it fires:
  \<^item> \<open>Redirect u\<close>: \<open>window.location.href = u\<close>;
  \<^item> \<open>AlertRestore m t\<close>: \<open>alert(m); button.textContent = t; button.disabled = false\<close>;
  \<^item> \<open>AlertRestoreLogin m t\<close>: the same, then \<open>setActiveTab('login')\<close>;
  \<^item> \<open>SendingCredentials m t\<close>: \<open>button.textContent = 'Sending Credentials...'\<close> and a
    second timer of 2000 ms running \<open>AlertRestoreLogin m t\<close>.
\<close>

datatype callback =
    Redirect string
  | AlertRestore string string
  | AlertRestoreLogin string string
  | SendingCredentials string string

text \<open>
  The page: the submit button of the submitted form, the active tab, the alerts shown and
  the console lines written so far, the browser's \<open>localStorage\<close> and location, the
  timers started and not yet fired (delay in ms, callback), the store, and the clock
  (\<open>Date.now()\<close> and \<open>new Date().toISOString()\<close>). \<open>JSON.stringify\<close> of the session
  object is kept as the object itself.
\<close>

record login_page =
  button_text :: string
  button_disabled :: bool
  activeTab :: string
  alerts :: "string list"
  console :: "string list"
  localStorage :: "string \<rightharpoonup> fields"
  href :: string
  timers :: "(nat \<times> callback) list"
  db :: firestore
  now_ms :: nat
  now_iso :: string

text \<open>\<open>formData.get(name)\<close>: every name the handlers read is an input of the form.\<close>

type_synonym formdata = "string \<Rightarrow> string"

definition setTimeout :: "callback \<Rightarrow> nat \<Rightarrow> login_page \<Rightarrow> login_page" where
  "setTimeout cb ms p = p\<lparr>timers := timers p @ [(ms, cb)]\<rparr>"

definition alert :: "string \<Rightarrow> login_page \<Rightarrow> login_page" where
  "alert m p = p\<lparr>alerts := alerts p @ [m]\<rparr>"

definition console_write :: "string \<Rightarrow> login_page \<Rightarrow> login_page" where
  "console_write m p = p\<lparr>console := console p @ [m]\<rparr>"

definition restore :: "string \<Rightarrow> login_page \<Rightarrow> login_page" where
  "restore originalText p = p\<lparr>button_text := originalText, button_disabled := False\<rparr>"

fun fire :: "callback \<Rightarrow> login_page \<Rightarrow> login_page" where
  "fire (Redirect u) p = p\<lparr>href := u\<rparr>"
| "fire (AlertRestore m t) p = restore t (alert m p)"
| "fire (AlertRestoreLogin m t) p = (restore t (alert m p))\<lparr>activeTab := ''login''\<rparr>"
| "fire (SendingCredentials m t) p =
     setTimeout (AlertRestoreLogin m t) 2000 (p\<lparr>button_text := ''Sending Credentials...''\<rparr>)"

text \<open>Let every timer that is pending fire, in the order in which they were started.\<close>

definition run_timers :: "login_page \<Rightarrow> login_page" where
  "run_timers p = foldl (\<lambda>q (ms, cb). fire cb q) (p\<lparr>timers := []\<rparr>) (timers p)"

fun digit10 :: "nat \<Rightarrow> char" where
  "digit10 n = ''0123456789'' ! (n mod 10)"

fun decimal :: "nat \<Rightarrow> string" where
  "decimal n = (if n < 10 then [digit10 n] else decimal (n div 10) @ [digit10 n])"

declare decimal.simps [simp del]

definition doctorsQuery :: "string \<Rightarrow> string \<Rightarrow> query" where
  "doctorsQuery userId password =
     Query ''doctors'' [(''doctorId'', userId), (''password'', password)]"

definition adminQuery :: "string \<Rightarrow> string \<Rightarrow> query" where
  "adminQuery userId password =
     Query ''admins'' [(''email'', userId), (''password'', password)]"

text \<open>
  The \<open>then\<close> and \<open>catch\<close> callbacks of the two \<open>getDocs\<close> calls, applied to the page
  once the store has answered.
\<close>

definition doctor_login :: "string \<Rightarrow> string \<Rightarrow> string \<Rightarrow> login_page \<Rightarrow> login_page" where
  "doctor_login userId password originalText p =
     (case getDocs (doctorsQuery userId password) (db p) of
        (Inr docs, fs) \<Rightarrow>
          (case docs of
             d # _ \<Rightarrow>
               (let doctorData = snd d
                in setTimeout (Redirect ''/dashboard'') 1500
                     (p\<lparr>db := fs,
                        localStorage := (localStorage p)
                          (''currentUser'' \<mapsto> AList.update ''id'' (fst d) doctorData)\<rparr>))
           | [] \<Rightarrow>
               setTimeout (AlertRestore ''Invalid Doctor ID or password!'' originalText) 1500
                 (p\<lparr>db := fs\<rparr>))
      | (Inl error, fs) \<Rightarrow>
          setTimeout (AlertRestore ''Login error. Please try again.'' originalText) 1500
            (console_write ''Error checking doctor credentials:'' (p\<lparr>db := fs\<rparr>)))"

definition admin_login :: "string \<Rightarrow> string \<Rightarrow> string \<Rightarrow> login_page \<Rightarrow> login_page" where
  "admin_login userId password originalText p =
     (case getDocs (adminQuery userId password) (db p) of
        (Inr docs, fs) \<Rightarrow>
          (case docs of
             d # _ \<Rightarrow> setTimeout (Redirect ''/admindashboard'') 1500 (p\<lparr>db := fs\<rparr>)
           | [] \<Rightarrow>
               setTimeout (AlertRestore ''Invalid admin credentials!'' originalText) 1500
                 (p\<lparr>db := fs\<rparr>))
      | (Inl error, fs) \<Rightarrow>
          setTimeout (AlertRestore ''Login error. Please try again.'' originalText) 1500
            (console_write ''Error checking admin credentials:'' (p\<lparr>db := fs\<rparr>)))"

definition admin_signup :: "formdata \<Rightarrow> string \<Rightarrow> login_page \<Rightarrow> login_page" where
  "admin_signup formData originalText p =
     (let firstName = formData ''firstName'';
          lastName = formData ''lastName'';
          email = formData ''email'';
          password = formData ''password'';
          confirmPassword = formData ''confirmPassword''
      in if password \<noteq> confirmPassword then alert ''Passwords do not match!'' p
         else
           (let p1 = p\<lparr>button_text := ''Creating Admin Account...'', button_disabled := True\<rparr>;
                adminData = [(''firstName'', firstName), (''lastName'', lastName),
                             (''email'', email), (''password'', password),
                             (''role'', ''admin''), (''createdAt'', now_iso p),
                             (''licenseId'', ''ADMIN_'' @ decimal (now_ms p))]
            in case addDoc ''admins'' adminData (db p1) of
                 (Inr u, fs) \<Rightarrow>
                   setTimeout
                     (AlertRestoreLogin
                        ''Admin account created successfully! Use your email and password to login.''
                        originalText) 1500 (p1\<lparr>db := fs\<rparr>)
               | (Inl error, fs) \<Rightarrow>
                   restore originalText
                     (alert ''Error creating account. Please try again.''
                        (console_write ''Error creating admin account:'' (p1\<lparr>db := fs\<rparr>)))))"

text \<open>
  \<open>handleSubmit(e, isLogin)\<close> of the store-backed login page, with the promise callbacks
  run: the result is the page when only timers are left to fire.
\<close>

definition handleSubmit :: "bool \<Rightarrow> formdata \<Rightarrow> login_page \<Rightarrow> login_page" where
  "handleSubmit isLogin formData p =
     (let originalText = button_text p
      in if isLogin then
           (let userId = formData ''userId'';
                password = formData ''password'';
                p1 = console_write (''UserId: '' @ userId @ '' Password: '' @ password) p;
                p2 = p1\<lparr>button_text := ''Signing In...'', button_disabled := True\<rparr>;
                role = formData ''role''
            in if role = ''doctor'' then doctor_login userId password originalText p2
               else if userId = ''user1234'' \<and> password = ''1234'' \<and> role = ''user''
                 then setTimeout (Redirect ''/user'') 1500 p2
               else if role = ''admin'' then admin_login userId password originalText p2
               else setTimeout
                      (AlertRestore ''Invalid credentials or role mismatch!'' originalText) 1500 p2)
         else admin_signup formData originalText p)"

section \<open>The earlier login page (\<open>Login\<close>, literal credentials)\<close>

text \<open>
  \<open>handleSubmit(e, isLogin)\<close> of the login page that has no store: the login branch
  compares with two literal pairs and never reads the role; the registration branch only
  runs two nested timers.
\<close>

definition handleSubmit_hardcoded :: "bool \<Rightarrow> formdata \<Rightarrow> login_page \<Rightarrow> login_page" where
  "handleSubmit_hardcoded isLogin formData p =
     (let originalText = button_text p
      in if isLogin then
           (let userId = formData ''userId'';
                password = formData ''password'';
                p1 = console_write (''UserId: '' @ userId @ '' Password: '' @ password) p;
                p2 = p1\<lparr>button_text := ''Signing In...'', button_disabled := True\<rparr>
            in if userId = ''doctor123'' \<and> password = ''password''
                 then setTimeout (Redirect ''/dashboard'') 1500 p2
               else if userId = ''user1234'' \<and> password = ''1234''
                 then setTimeout (Redirect ''/user'') 1500 p2
               else setTimeout
                      (AlertRestore
                         ''Invalid credentials! Use: doctor123/password or user1234/1234''
                         originalText) 1500 p2)
         else
           (let licenseId = formData ''licenseId'';
                email = formData ''email'';
                p1 = p\<lparr>button_text := ''Verifying License...'', button_disabled := True\<rparr>
            in setTimeout
                 (SendingCredentials
                    (''Registration successful! Login credentials have been sent to '' @ email @
                     ''. Please check your email and use the provided credentials to sign in.'')
                    originalText) 2000 p1))"

section \<open>The admin dashboard (\<open>AdminDashboard\<close>)\<close>

text \<open>\<open>s.substr(start, length)\<close> for a start that is not negative, and \<open>toUpperCase\<close> on ASCII.\<close>

definition substr :: "string \<Rightarrow> nat \<Rightarrow> nat \<Rightarrow> string" where
  "substr s start len = take len (drop start s)"

definition upper_char :: "char \<Rightarrow> char" where
  "upper_char c =
     (let n = (of_char c :: nat) in if 97 \<le> n \<and> n \<le> 122 then char_of (n - 32) else c)"

definition toUpperCase :: "string \<Rightarrow> string" where
  "toUpperCase s = map upper_char s"

text \<open>
  \<open>generateDoctorId\<close>. Its argument is the string \<open>Math.random().toString(36)\<close>: the
  random number, at least 0 and less than 1, printed in base 36.
\<close>

definition generateDoctorId :: "string \<Rightarrow> string" where
  "generateDoctorId random36 = ''DR'' @ toUpperCase (substr random36 2 8)"

text \<open>
  The base-36 expansion of the fraction \<open>m / 2 ^ k\<close> (with \<open>m < 2 ^ k\<close>), digit by digit;
  it ends after at most \<open>k\<close> digits. For a fraction whose expansion has no more than 8
  digits this is the string that \<open>toString(36)\<close> returns: such a number is printed in
  full, and zero is printed as \<open>0\<close>.
\<close>

definition digit36 :: "nat \<Rightarrow> char" where
  "digit36 n = ''0123456789abcdefghijklmnopqrstuvwxyz'' ! (n mod 36)"

fun fraction36 :: "nat \<Rightarrow> nat \<Rightarrow> nat \<Rightarrow> string" where
  "fraction36 0 m d = []"
| "fraction36 (Suc n) m d =
     (if m = 0 then [] else digit36 (36 * m div d) # fraction36 n (36 * m mod d) d)"

definition toString36 :: "nat \<Rightarrow> nat \<Rightarrow> string" where
  "toString36 m k = (if m = 0 then ''0'' else ''0.'' @ fraction36 k m (2 ^ k))"

text \<open>The pattern of a doctor identifier: \<open>DR\<close>, then exactly 8 characters of \<open>0-9A-Z\<close>.\<close>

definition upper36 :: "char \<Rightarrow> bool" where
  "upper36 c = (c \<in> set ''0123456789ABCDEFGHIJKLMNOPQRSTUVWXYZ'')"

definition is_doctor_id :: "string \<Rightarrow> bool" where
  "is_doctor_id s = (length s = 10 \<and> take 2 s = ''DR'' \<and> list_all upper36 (drop 2 s))"

datatype admin_callback = HideAlert

text \<open>
  The dashboard: its React state (\<open>isCreateDialogOpen\<close>, \<open>showAlert\<close>, \<open>alertMessage\<close>,
  \<open>doctors\<close>), the timers started and not yet fired, whether the creation form has been
  reset, the store, the \<open>currentUser.name\<close> property, the clock, and the next value of
  \<open>Math.random().toString(36)\<close>.
\<close>

record admin_dashboard =
  isCreateDialogOpen :: bool
  showAlert :: bool
  alertMessage :: string
  doctors :: "fields list"
  banner_timers :: "(nat \<times> admin_callback) list"
  form_reset :: bool
  admin_db :: firestore
  currentUser_name :: string
  created_iso :: string
  random36 :: string

text \<open>
  The \<open>onSnapshot\<close> listener on the doctors collection: each change of the collection
  delivers the whole collection, and every document becomes \<open>{id: doc.id, ...doc.data()}\<close>.
\<close>

definition doctor_row :: "document \<Rightarrow> fields" where
  "doctor_row d = foldl (\<lambda>obj (k, v). AList.update k v obj) [(''id'', fst d)] (snd d)"

definition onSnapshot :: "admin_dashboard \<Rightarrow> admin_dashboard" where
  "onSnapshot pg = pg\<lparr>doctors := map doctor_row (colls (admin_db pg) ''doctors'')\<rparr>"

definition setAlertMessage :: "string \<Rightarrow> admin_dashboard \<Rightarrow> admin_dashboard" where
  "setAlertMessage m pg = pg\<lparr>alertMessage := m\<rparr>"

definition setShowAlert :: "bool \<Rightarrow> admin_dashboard \<Rightarrow> admin_dashboard" where
  "setShowAlert b pg = pg\<lparr>showAlert := b\<rparr>"

definition setIsCreateDialogOpen :: "bool \<Rightarrow> admin_dashboard \<Rightarrow> admin_dashboard" where
  "setIsCreateDialogOpen b pg = pg\<lparr>isCreateDialogOpen := b\<rparr>"

definition setTimeout_admin :: "admin_callback \<Rightarrow> nat \<Rightarrow> admin_dashboard \<Rightarrow> admin_dashboard" where
  "setTimeout_admin cb ms pg = pg\<lparr>banner_timers := banner_timers pg @ [(ms, cb)]\<rparr>"

fun fire_admin :: "admin_callback \<Rightarrow> admin_dashboard \<Rightarrow> admin_dashboard" where
  "fire_admin HideAlert pg = setShowAlert False pg"

definition run_banner_timers :: "admin_dashboard \<Rightarrow> admin_dashboard" where
  "run_banner_timers pg =
     foldl (\<lambda>q (ms, cb). fire_admin cb q) (pg\<lparr>banner_timers := []\<rparr>) (banner_timers pg)"

definition handleCreateDoctor :: "formdata \<Rightarrow> admin_dashboard \<Rightarrow> admin_dashboard" where
  "handleCreateDoctor formData pg =
     (let doctorId = generateDoctorId (random36 pg);
          doctorData = [(''doctorId'', doctorId), (''name'', formData ''name''),
                        (''email'', formData ''email''), (''username'', formData ''username''),
                        (''password'', formData ''password''),
                        (''specialization'', formData ''specialization''),
                        (''role'', ''doctor''), (''createdAt'', created_iso pg),
                        (''createdBy'', currentUser_name pg)]
      in case addDoc ''doctors'' doctorData (admin_db pg) of
           (Inr u, fs) \<Rightarrow>
             (let pg1 = onSnapshot (pg\<lparr>admin_db := fs\<rparr>);
                  pg2 = setIsCreateDialogOpen False pg1;
                  pg3 = setAlertMessage
                          (''Doctor '' @ formData ''name'' @ '' created successfully with ID: '' @
                           doctorId) pg2;
                  pg4 = setShowAlert True pg3;
                  pg5 = setTimeout_admin HideAlert 3000 pg4
              in pg5\<lparr>form_reset := True\<rparr>)
         | (Inl error, fs) \<Rightarrow>
             (let pg1 = setAlertMessage ''Error creating doctor account'' (pg\<lparr>admin_db := fs\<rparr>);
                  pg2 = setShowAlert True pg1
              in setTimeout_admin HideAlert 3000 pg2))"

definition handleDeleteDoctor :: "string \<Rightarrow> string \<Rightarrow> admin_dashboard \<Rightarrow> admin_dashboard" where
  "handleDeleteDoctor doctorId doctorName pg =
     (case deleteDoc ''doctors'' doctorId (admin_db pg) of
        (Inr u, fs) \<Rightarrow>
          (let pg1 = onSnapshot (pg\<lparr>admin_db := fs\<rparr>);
               pg2 = setAlertMessage (''Doctor '' @ doctorName @ '' has been deleted'') pg1;
               pg3 = setShowAlert True pg2
           in setTimeout_admin HideAlert 3000 pg3)
      | (Inl error, fs) \<Rightarrow>
          (let pg1 = setAlertMessage ''Error deleting doctor'' (pg\<lparr>admin_db := fs\<rparr>);
               pg2 = setShowAlert True pg1
           in setTimeout_admin HideAlert 3000 pg2))"

section \<open>Stored records and sample data\<close>

text \<open>
  The stored records that a login attempt matches: the documents that the query of its
  role selects. Only the roles \<open>doctor\<close> and \<open>admin\<close> have a collection.
\<close>

definition stored_matches :: "string \<Rightarrow> string \<Rightarrow> string \<Rightarrow> firestore \<Rightarrow> document list" where
  "stored_matches role userId password fs =
     (if role = ''doctor''
        then filter (satisfies [(''doctorId'', userId), (''password'', password)])
               (colls fs ''doctors'')
      else if role = ''admin''
        then filter (satisfies [(''email'', userId), (''password'', password)])
               (colls fs ''admins'')
      else [])"

definition invalid_credentials_alert :: "string \<Rightarrow> string" where
  "invalid_credentials_alert role =
     (if role = ''doctor'' then ''Invalid Doctor ID or password!''
      else if role = ''admin'' then ''Invalid admin credentials!''
      else ''Invalid credentials or role mismatch!'')"

text \<open>A login form and a signup form as filled in, a small store, and pages at rest.\<close>

definition login_form :: "string \<Rightarrow> string \<Rightarrow> string \<Rightarrow> formdata" where
  "login_form role userId password name =
     (if name = ''role'' then role else if name = ''userId'' then userId
      else if name = ''password'' then password else [])"

definition signup_form :: "string \<Rightarrow> string \<Rightarrow> formdata" where
  "signup_form password confirmPassword name =
     (if name = ''firstName'' then ''Asha'' else if name = ''lastName'' then ''Rao''
      else if name = ''email'' then ''a@b.com'' else if name = ''password'' then password
      else if name = ''confirmPassword'' then confirmPassword else [])"

definition sample_doctor :: document where
  "sample_doctor =
     (''k7Qd'', [(''doctorId'', ''DR8A3F2B1C''), (''name'', ''Dr. Mehta''),
                (''email'', ''m@b.com''), (''username'', ''mehta''), (''password'', ''pw123''),
                (''specialization'', ''Ayurveda''), (''role'', ''doctor''),
                (''createdAt'', ''2024-09-01T00:00:00.000Z''), (''createdBy'', ''Admin User'')])"

definition second_doctor :: document where
  "second_doctor =
     (''w2Re'', [(''doctorId'', ''DR4FZYO82M''), (''name'', ''Dr. Iyer''),
                (''email'', ''i@b.com''), (''username'', ''iyer''), (''password'', ''s3cret''),
                (''specialization'', ''Nutrition''), (''role'', ''doctor''),
                (''createdAt'', ''2024-09-02T00:00:00.000Z''), (''createdBy'', ''Admin User'')])"

definition sample_admin :: document where
  "sample_admin =
     (''p3Xa'', [(''firstName'', ''Asha''), (''lastName'', ''Rao''), (''email'', ''a@b.com''),
                (''password'', ''right''), (''role'', ''admin''),
                (''createdAt'', ''2024-09-01T00:00:00.000Z''),
                (''licenseId'', ''ADMIN_1725148800000'')])"

definition sample_store :: "bool \<Rightarrow> firestore" where
  "sample_store failing =
     \<lparr>colls = (\<lambda>c. if c = ''doctors'' then [sample_doctor, second_doctor]
                   else if c = ''admins'' then [sample_admin] else []),
      rejects = failing, auto_id = ''z9Lm'', calls = []\<rparr>"

definition idle_page :: "firestore \<Rightarrow> login_page" where
  "idle_page fs =
     \<lparr>button_text = ''Sign In'', button_disabled = False, activeTab = ''login'', alerts = [],
      console = [], localStorage = Map.empty, href = ''/login'', timers = [], db = fs,
      now_ms = 0, now_iso = ''2024-09-01T00:00:00.000Z''\<rparr>"

definition idle_dashboard :: "firestore \<Rightarrow> admin_dashboard" where
  "idle_dashboard fs =
     \<lparr>isCreateDialogOpen = False, showAlert = False, alertMessage = [],
      doctors = map doctor_row (colls fs ''doctors''), banner_timers = [], form_reset = False,
      admin_db = fs, currentUser_name = ''Admin User'',
      created_iso = ''2024-09-01T00:00:00.000Z'', random36 = ''0.4fzyo82mvyr''\<rparr>"

section \<open>Unfolding the handlers\<close>

lemmas page_defs = handleSubmit_def handleSubmit_hardcoded_def doctor_login_def admin_login_def
  admin_signup_def setTimeout_def alert_def console_write_def restore_def run_timers_def
  doctorsQuery_def adminQuery_def Let_def

lemmas admin_defs = handleCreateDoctor_def handleDeleteDoctor_def addDoc_def deleteDoc_def
  setAlertMessage_def setShowAlert_def setIsCreateDialogOpen_def setTimeout_admin_def
  onSnapshot_def Let_def

lemmas sample_defs = sample_store_def sample_doctor_def second_doctor_def sample_admin_def
  idle_page_def idle_dashboard_def login_form_def signup_form_def satisfies_def

lemma length_filter_distinct_key:
  "distinct (map fst ds) \<Longrightarrow>
   length (filter (\<lambda>d. fst d \<noteq> i) ds) + (if i \<in> fst ` set ds then 1 else 0) = length ds"
proof (induction ds)
  case Nil
  show ?case by simp
next
  case (Cons d ds)
  then have ih: "length (filter (\<lambda>d. fst d \<noteq> i) ds)
                   + (if i \<in> fst ` set ds then 1 else 0) = length ds"
    and fresh: "fst d \<notin> fst ` set ds"
    by simp_all
  show ?case
  proof (cases "fst d = i")
    case True
    with fresh ih show ?thesis by simp
  next
    case False
    with ih show ?thesis by simp
  qed
qed

section \<open>Login: success\<close>

text \<open>
  The doctor branch: when the query selects at least one document, the first one is
  written under \<open>currentUser\<close> with every field of the record other than \<open>id\<close> kept and
  \<open>id\<close> set to the identifier of the document, and the page goes to \<open>/dashboard\<close>.
\<close>

lemma doctor_login_session_marker:
  assumes role: "f ''role'' = ''doctor''"
    and one: "stored_matches ''doctor'' (f ''userId'') (f ''password'') (db p) = d # ds"
    and up: "\<not> rejects (db p)"
    and idle: "timers p = []"
  shows "href (run_timers (handleSubmit True f p)) = ''/dashboard''"
    and "localStorage (run_timers (handleSubmit True f p)) =
           (localStorage p)(''currentUser'' \<mapsto> AList.update ''id'' (fst d) (snd d))"
    and "map_of (the (localStorage (run_timers (handleSubmit True f p)) ''currentUser'')) k =
           (if k = ''id'' then Some (fst d) else map_of (snd d) k)"
    and "alerts (run_timers (handleSubmit True f p)) = alerts p"
  using assms by (simp_all add: page_defs stored_matches_def update_conv')

text \<open>
  C1. For every login attempt that matches exactly one stored record, the verifier
  succeeds, writes the record with its document identifier under \<open>currentUser\<close>, and goes
  to the route of the role. The admin branch does not: for the stored admin
  \<open>a@b.com\<close> with password \<open>right\<close>, exactly one record matches and the page goes to
  \<open>/admindashboard\<close>, but nothing is written under \<open>currentUser\<close>.
\<close>

theorem admin_login_no_session_marker:
  "length (stored_matches ''admin'' ''a@b.com'' ''right'' (sample_store False)) = 1
   \<and> href (run_timers (handleSubmit True (login_form ''admin'' ''a@b.com'' ''right'')
              (idle_page (sample_store False)))) = ''/admindashboard''
   \<and> localStorage (run_timers (handleSubmit True (login_form ''admin'' ''a@b.com'' ''right'')
              (idle_page (sample_store False)))) ''currentUser'' = None"
  by (simp add: page_defs sample_defs stored_matches_def)

section \<open>Doctor identifiers\<close>

lemma upper_char_table:
  "list_all (\<lambda>c. upper36 (upper_char c)) ''0123456789abcdefghijklmnopqrstuvwxyz''"
  by code_simp

lemma upper_char_36:
  "c \<in> set ''0123456789abcdefghijklmnopqrstuvwxyz'' \<Longrightarrow> upper36 (upper_char c)"
  using upper_char_table unfolding list_all_iff by blast

text \<open>
  An identifier always starts with \<open>DR\<close> and has as many further characters as the print
  of the random number has after its first two, at most 8.
\<close>

lemma generateDoctorId_shape:
  "take 2 (generateDoctorId s) = ''DR''
   \<and> length (generateDoctorId s) = 2 + min 8 (length s - 2)"
  by (simp add: generateDoctorId_def toUpperCase_def substr_def)

text \<open>When the print has at least 8 base-36 digits after \<open>0.\<close>, the identifier has the pattern.\<close>

lemma generateDoctorId_long:
  assumes len: "10 \<le> length s"
    and digits: "set (substr s 2 8) \<subseteq> set ''0123456789abcdefghijklmnopqrstuvwxyz''"
  shows "is_doctor_id (generateDoctorId s)"
proof -
  have "list_all upper36 (map upper_char (substr s 2 8))"
    using digits upper_char_36 by (auto simp: list_all_iff)
  with len show ?thesis
    by (simp add: is_doctor_id_def generateDoctorId_def toUpperCase_def substr_def)
qed

text \<open>
  C2. Every identifier that \<open>generateDoctorId\<close> returns is \<open>DR\<close> followed by exactly 8
  uppercase base-36 characters, for every value of the random number. The code takes
  up to 8 characters of the print and does not pad: when \<open>Math.random()\<close> is \<open>1/2\<close>, the
  print is \<open>0.i\<close> and the identifier is \<open>DRI\<close>, which does not have the pattern.
\<close>

theorem short_doctor_id:
  "toString36 1 1 = ''0.i''
   \<and> generateDoctorId (toString36 1 1) = ''DRI''
   \<and> \<not> is_doctor_id (generateDoctorId (toString36 1 1))"
  by code_simp

section \<open>Login: failure\<close>

text \<open>
  C3, as stated: every login attempt that matches no stored record fails with an alert,
  writes no session marker, and leaves the submit button enabled with its label. The
  literal pair of the role \<open>user\<close> matches no stored record, and the verifier accepts
  it: no alert, the page goes to \<open>/user\<close>, the button stays disabled.
\<close>

theorem login_no_match_counterexample:
  "stored_matches ''user'' ''user1234'' ''1234'' (sample_store False) = []
   \<and> alerts (run_timers (handleSubmit True (login_form ''user'' ''user1234'' ''1234'')
                (idle_page (sample_store False)))) = []
   \<and> href (run_timers (handleSubmit True (login_form ''user'' ''user1234'' ''1234'')
                (idle_page (sample_store False)))) = ''/user''
   \<and> button_disabled (run_timers (handleSubmit True (login_form ''user'' ''user1234'' ''1234'')
                (idle_page (sample_store False))))"
  by (simp add: page_defs sample_defs stored_matches_def)

text \<open>
  C3, amended: every login attempt other than the literal pair of the role \<open>user\<close>
  (\<open>user1234\<close> with \<open>1234\<close>) that matches no stored record ends, once its timer has fired,
  with exactly one more alert, \<open>localStorage\<close> and the location as they were, and the
  submit button enabled with its original label.
\<close>

theorem login_no_match_fails:
  assumes nomatch: "stored_matches (f ''role'') (f ''userId'') (f ''password'') (db p) = []"
    and notlit: "\<not> (f ''role'' = ''user'' \<and> f ''userId'' = ''user1234''
                    \<and> f ''password'' = ''1234'')"
    and idle: "timers p = []"
  shows "alerts (run_timers (handleSubmit True f p)) =
           alerts p @ [if rejects (db p) \<and> (f ''role'' = ''doctor'' \<or> f ''role'' = ''admin'')
                       then ''Login error. Please try again.''
                       else invalid_credentials_alert (f ''role'')]
       \<and> localStorage (run_timers (handleSubmit True f p)) = localStorage p
       \<and> href (run_timers (handleSubmit True f p)) = href p
       \<and> button_text (run_timers (handleSubmit True f p)) = button_text p
       \<and> \<not> button_disabled (run_timers (handleSubmit True f p))
       \<and> timers (run_timers (handleSubmit True f p)) = []"
  using assms
  by (auto simp: page_defs stored_matches_def invalid_credentials_alert_def split: list.splits)

theorem login_no_match_fails_witness:
  "stored_matches ''admin'' ''a@b.com'' ''wrong'' (sample_store False) = []
   \<and> timers (idle_page (sample_store False)) = []
   \<and> alerts (run_timers (handleSubmit True (login_form ''admin'' ''a@b.com'' ''wrong'')
                (idle_page (sample_store False)))) = [''Invalid admin credentials!'']
   \<and> localStorage (run_timers (handleSubmit True (login_form ''admin'' ''a@b.com'' ''wrong'')
                (idle_page (sample_store False)))) = Map.empty
   \<and> button_text (run_timers (handleSubmit True (login_form ''admin'' ''a@b.com'' ''wrong'')
                (idle_page (sample_store False)))) = ''Sign In''
   \<and> \<not> button_disabled (run_timers (handleSubmit True (login_form ''admin'' ''a@b.com'' ''wrong'')
                (idle_page (sample_store False))))"
proof -
  let ?f = "login_form ''admin'' ''a@b.com'' ''wrong''"
  let ?p = "idle_page (sample_store False)"
  have h1: "stored_matches (?f ''role'') (?f ''userId'') (?f ''password'') (db ?p) = []"
    by (simp add: sample_defs stored_matches_def)
  have h2: "\<not> (?f ''role'' = ''user'' \<and> ?f ''userId'' = ''user1234''
                \<and> ?f ''password'' = ''1234'')"
    by (simp add: login_form_def)
  have h3: "timers ?p = []"
    by (simp add: idle_page_def)
  have page: "alerts ?p = []" "localStorage ?p = Map.empty" "button_text ?p = ''Sign In''"
    "\<not> rejects (sample_store False)"
    by (simp_all add: idle_page_def sample_store_def)
  have role: "?f ''role'' = ''admin''" "?f ''userId'' = ''a@b.com''" "?f ''password'' = ''wrong''"
    by (simp_all add: login_form_def)
  have store: "db ?p = sample_store False"
    by (simp add: idle_page_def)
  from login_no_match_fails [of ?f ?p, OF h1 h2 h3] h1 h3 show ?thesis
    by (simp add: page role store invalid_credentials_alert_def)
qed

text \<open>
  C6. Every login attempt ends in one of two failures or in none. When the store
  rejects the query, the alert is \<open>Login error. Please try again.\<close>; when no stored
  record matches (and the pair is not the literal one of the role \<open>user\<close>), the alert is
  the invalid-credentials message of the role, which is a different message; otherwise
  there is no alert. After either alert the button is enabled again with its original
  label, the page stays where it is and nothing is written to \<open>localStorage\<close>. No timer
  is left, and the store was asked once for a store-backed role and never otherwise:
  nothing is retried.
\<close>

theorem login_error_kinds:
  assumes idle: "timers p = []"
  shows "alerts (run_timers (handleSubmit True f p)) = alerts p @
           (if (f ''role'' = ''doctor'' \<or> f ''role'' = ''admin'') \<and> rejects (db p)
              then [''Login error. Please try again.'']
            else if f ''role'' = ''user'' \<and> f ''userId'' = ''user1234'' \<and> f ''password'' = ''1234''
              then []
            else if stored_matches (f ''role'') (f ''userId'') (f ''password'') (db p) = []
              then [invalid_credentials_alert (f ''role'')]
            else [])
       \<and> invalid_credentials_alert (f ''role'') \<noteq> ''Login error. Please try again.''
       \<and> (alerts (run_timers (handleSubmit True f p)) \<noteq> alerts p \<longrightarrow>
            button_text (run_timers (handleSubmit True f p)) = button_text p
          \<and> \<not> button_disabled (run_timers (handleSubmit True f p))
          \<and> href (run_timers (handleSubmit True f p)) = href p
          \<and> localStorage (run_timers (handleSubmit True f p)) = localStorage p)
       \<and> timers (run_timers (handleSubmit True f p)) = []
       \<and> length (calls (db (run_timers (handleSubmit True f p)))) =
            length (calls (db p))
              + (if f ''role'' = ''doctor'' \<or> f ''role'' = ''admin'' then 1 else 0)"
  using assms
  by (auto simp: page_defs stored_matches_def invalid_credentials_alert_def split: list.splits)

theorem login_error_kinds_witness:
  "timers (idle_page (sample_store True)) = []
   \<and> alerts (run_timers (handleSubmit True (login_form ''doctor'' ''DR8A3F2B1C'' ''pw123'')
             (idle_page (sample_store True)))) = [''Login error. Please try again.'']
   \<and> alerts (run_timers (handleSubmit True (login_form ''doctor'' ''DR8A3F2B1C'' ''nope'')
             (idle_page (sample_store False)))) = [''Invalid Doctor ID or password!'']
   \<and> button_text (run_timers (handleSubmit True (login_form ''doctor'' ''DR8A3F2B1C'' ''pw123'')
             (idle_page (sample_store True)))) = ''Sign In''
   \<and> \<not> button_disabled (run_timers (handleSubmit True (login_form ''doctor'' ''DR8A3F2B1C'' ''pw123'')
             (idle_page (sample_store True))))
   \<and> length (calls (db (run_timers (handleSubmit True
             (login_form ''doctor'' ''DR8A3F2B1C'' ''pw123'') (idle_page (sample_store True)))))) = 1"
proof -
  let ?f = "login_form ''doctor'' ''DR8A3F2B1C'' ''pw123''"
  let ?g = "login_form ''doctor'' ''DR8A3F2B1C'' ''nope''"
  let ?up = "idle_page (sample_store False)"
  let ?down = "idle_page (sample_store True)"
  have idle: "timers ?up = []" "timers ?down = []"
    by (simp_all add: idle_page_def)
  have page: "alerts ?up = []" "alerts ?down = []" "button_text ?down = ''Sign In''"
    "rejects (db ?down)" "\<not> rejects (db ?up)" "calls (db ?down) = []"
    by (simp_all add: idle_page_def sample_store_def)
  have none: "stored_matches (?g ''role'') (?g ''userId'') (?g ''password'') (db ?up) = []"
    by (simp add: sample_defs stored_matches_def)
  have role: "?f ''role'' = ''doctor''" "?g ''role'' = ''doctor''"
    by (simp_all add: login_form_def)
  from login_error_kinds [of ?down ?f, OF idle(2)] login_error_kinds [of ?up ?g, OF idle(1)]
    none idle(2)
  show ?thesis
    by (simp add: page role invalid_credentials_alert_def)
qed

text \<open>
  C7. A login attempt of the role \<open>doctor\<close> issues one equality query on the collection
  \<open>doctors\<close> with the two filters \<open>doctorId\<close> and \<open>password\<close>; one of the role \<open>admin\<close>
  issues one on \<open>admins\<close> with the two filters \<open>email\<close> and \<open>password\<close>; any other
  attempt issues none.
\<close>

theorem login_queries:
  "calls (db (handleSubmit True f p)) = calls (db p) @
     (if f ''role'' = ''doctor''
        then [GetDocs (Query ''doctors''
                [(''doctorId'', f ''userId''), (''password'', f ''password'')])]
      else if f ''role'' = ''admin''
        then [GetDocs (Query ''admins''
                [(''email'', f ''userId''), (''password'', f ''password'')])]
      else [])"
  by (auto simp: page_defs split: list.splits)

section \<open>The literal credentials\<close>

text \<open>
  C5, as stated: the branch of the verifier for the role \<open>user\<close> accepts exactly two
  literal pairs. The store-backed verifier turns the pair \<open>doctor123\<close> with \<open>password\<close>
  away under the role \<open>user\<close>; only the earlier page without a store accepts it, and
  sends it to the doctor's route.
\<close>

theorem user_branch_counterexample:
  "alerts (run_timers (handleSubmit True (login_form ''user'' ''doctor123'' ''password'')
             (idle_page (sample_store False)))) = [''Invalid credentials or role mismatch!'']
   \<and> href (run_timers (handleSubmit True (login_form ''user'' ''doctor123'' ''password'')
             (idle_page (sample_store False)))) = ''/login''
   \<and> href (run_timers (handleSubmit_hardcoded True
             (login_form ''user'' ''doctor123'' ''password'')
             (idle_page (sample_store False)))) = ''/dashboard''"
  by (simp add: page_defs sample_defs)

text \<open>
  C5, amended: under the role \<open>user\<close> the store-backed verifier accepts exactly one
  literal pair, \<open>user1234\<close> with \<open>1234\<close>, and goes to \<open>/user\<close>; the earlier login page
  accepts exactly two literal pairs whatever the role, \<open>doctor123\<close> with \<open>password\<close>
  (to \<open>/dashboard\<close>) and \<open>user1234\<close> with \<open>1234\<close> (to \<open>/user\<close>); every other pair gets an
  alert, and neither path touches the store.
\<close>

theorem user_branch_literals:
  assumes idle: "timers p = []"
  shows "(f ''role'' = ''user'' \<longrightarrow>
            href (run_timers (handleSubmit True f p)) =
              (if f ''userId'' = ''user1234'' \<and> f ''password'' = ''1234'' then ''/user''
               else href p)
          \<and> alerts (run_timers (handleSubmit True f p)) = alerts p @
              (if f ''userId'' = ''user1234'' \<and> f ''password'' = ''1234'' then []
               else [''Invalid credentials or role mismatch!''])
          \<and> db (run_timers (handleSubmit True f p)) = db p)
       \<and> href (run_timers (handleSubmit_hardcoded True f p)) =
            (if f ''userId'' = ''doctor123'' \<and> f ''password'' = ''password'' then ''/dashboard''
             else if f ''userId'' = ''user1234'' \<and> f ''password'' = ''1234'' then ''/user''
             else href p)
       \<and> alerts (run_timers (handleSubmit_hardcoded True f p)) = alerts p @
            (if (f ''userId'' = ''doctor123'' \<and> f ''password'' = ''password'')
                \<or> (f ''userId'' = ''user1234'' \<and> f ''password'' = ''1234'') then []
             else [''Invalid credentials! Use: doctor123/password or user1234/1234''])
       \<and> db (run_timers (handleSubmit_hardcoded True f p)) = db p"
  using assms
  by (auto simp: page_defs)

theorem user_branch_literals_witness:
  "timers (idle_page (sample_store False)) = []
   \<and> href (run_timers (handleSubmit True (login_form ''user'' ''user1234'' ''1234'')
             (idle_page (sample_store False)))) = ''/user''
   \<and> db (run_timers (handleSubmit True (login_form ''user'' ''user1234'' ''1234'')
             (idle_page (sample_store False)))) = sample_store False
   \<and> href (run_timers (handleSubmit_hardcoded True (login_form ''user'' ''user1234'' ''1234'')
             (idle_page (sample_store False)))) = ''/user''"
proof -
  let ?f = "login_form ''user'' ''user1234'' ''1234''"
  let ?p = "idle_page (sample_store False)"
  have idle: "timers ?p = []"
    by (simp add: idle_page_def)
  have form: "?f ''role'' = ''user''" "?f ''userId'' = ''user1234''" "?f ''password'' = ''1234''"
    by (simp_all add: login_form_def)
  have store: "db ?p = sample_store False"
    by (simp add: idle_page_def)
  from user_branch_literals [of ?p ?f, OF idle] idle show ?thesis
    by (simp add: form store)
qed

section \<open>Admin signup\<close>

text \<open>
  C4. When the two password fields of the signup form differ, the handler alerts
  \<open>Passwords do not match!\<close> and leaves the store as it was: no request is issued.
\<close>

theorem signup_mismatch_no_write:
  assumes "f ''password'' \<noteq> f ''confirmPassword''"
  shows "db (handleSubmit False f p) = db p
       \<and> calls (db (handleSubmit False f p)) = calls (db p)
       \<and> alerts (handleSubmit False f p) = alerts p @ [''Passwords do not match!'']"
  using assms by (simp add: page_defs)

theorem signup_mismatch_no_write_witness:
  "signup_form ''abc123'' ''abc124'' ''password''
     \<noteq> signup_form ''abc123'' ''abc124'' ''confirmPassword''
   \<and> calls (db (handleSubmit False (signup_form ''abc123'' ''abc124'')
        (idle_page (sample_store False)))) = []
   \<and> alerts (handleSubmit False (signup_form ''abc123'' ''abc124'')
        (idle_page (sample_store False))) = [''Passwords do not match!'']"
proof -
  let ?f = "signup_form ''abc123'' ''abc124''"
  let ?p = "idle_page (sample_store False)"
  have differ: "?f ''password'' \<noteq> ?f ''confirmPassword''"
    by (simp add: signup_form_def)
  have page: "calls (db ?p) = []" "alerts ?p = []"
    by (simp_all add: idle_page_def sample_store_def)
  from signup_mismatch_no_write [of ?f ?p, OF differ] differ show ?thesis
    by (simp add: page)
qed

text \<open>
  C9. On a password mismatch the handler returns before it touches the submit button:
  its label and its disabled flag are as before, no timer is started, the active tab is
  the same; the alert is the only change of the page.
\<close>

theorem signup_mismatch_ui_unchanged:
  assumes "f ''password'' \<noteq> f ''confirmPassword''"
  shows "button_text (handleSubmit False f p) = button_text p
       \<and> button_disabled (handleSubmit False f p) = button_disabled p
       \<and> timers (handleSubmit False f p) = timers p
       \<and> activeTab (handleSubmit False f p) = activeTab p
       \<and> handleSubmit False f p = p\<lparr>alerts := alerts p @ [''Passwords do not match!'']\<rparr>"
  using assms by (simp add: page_defs)

theorem signup_mismatch_ui_unchanged_witness:
  "signup_form ''abc123'' ''abc124'' ''password''
     \<noteq> signup_form ''abc123'' ''abc124'' ''confirmPassword''
   \<and> button_text (handleSubmit False (signup_form ''abc123'' ''abc124'')
        (idle_page (sample_store False))) = ''Sign In''
   \<and> \<not> button_disabled (handleSubmit False (signup_form ''abc123'' ''abc124'')
        (idle_page (sample_store False)))
   \<and> timers (handleSubmit False (signup_form ''abc123'' ''abc124'')
        (idle_page (sample_store False))) = []"
proof -
  let ?f = "signup_form ''abc123'' ''abc124''"
  let ?p = "idle_page (sample_store False)"
  have differ: "?f ''password'' \<noteq> ?f ''confirmPassword''"
    by (simp add: signup_form_def)
  have page: "button_text ?p = ''Sign In''" "\<not> button_disabled ?p" "timers ?p = []"
    by (simp_all add: idle_page_def)
  from signup_mismatch_ui_unchanged [of ?f ?p, OF differ] differ show ?thesis
    by (simp add: page)
qed

section \<open>The admin dashboard: banners and deletion\<close>

text \<open>
  C8. A deletion request asks the store to delete the document with the given identifier
  from the collection \<open>doctors\<close>, and nothing else. When the store accepts, every other
  document and every other collection is as before, one document is gone if the
  identifier was there (identifiers are distinct), the list on screen is the new
  collection, and the banner says the doctor has been deleted; when the store rejects,
  the banner says \<open>Error deleting doctor\<close>.
\<close>

theorem delete_doctor_frame:
  assumes ids: "distinct (map fst (colls (admin_db pg) ''doctors''))"
  shows "showAlert (handleDeleteDoctor i n pg)
       \<and> (if rejects (admin_db pg)
            then alertMessage (handleDeleteDoctor i n pg) = ''Error deleting doctor''
               \<and> colls (admin_db (handleDeleteDoctor i n pg)) = colls (admin_db pg)
            else alertMessage (handleDeleteDoctor i n pg) = ''Doctor '' @ n @ '' has been deleted''
               \<and> colls (admin_db (handleDeleteDoctor i n pg)) =
                   (colls (admin_db pg))
                     (''doctors'' := filter (\<lambda>d. fst d \<noteq> i) (colls (admin_db pg) ''doctors''))
               \<and> length (colls (admin_db (handleDeleteDoctor i n pg)) ''doctors'')
                     + (if i \<in> fst ` set (colls (admin_db pg) ''doctors'') then 1 else 0) =
                   length (colls (admin_db pg) ''doctors'')
               \<and> doctors (handleDeleteDoctor i n pg) =
                   map doctor_row (filter (\<lambda>d. fst d \<noteq> i) (colls (admin_db pg) ''doctors'')))
       \<and> calls (admin_db (handleDeleteDoctor i n pg)) =
            calls (admin_db pg) @ [DeleteDoc ''doctors'' i]"
  using length_filter_distinct_key [OF ids, of i]
  by (simp add: admin_defs)

theorem delete_doctor_frame_witness:
  "distinct (map fst (colls (sample_store False) ''doctors''))
   \<and> colls (admin_db (handleDeleteDoctor ''k7Qd'' ''Dr. Mehta''
        (idle_dashboard (sample_store False)))) ''doctors'' = [second_doctor]
   \<and> colls (admin_db (handleDeleteDoctor ''k7Qd'' ''Dr. Mehta''
        (idle_dashboard (sample_store False)))) ''admins'' = [sample_admin]
   \<and> alertMessage (handleDeleteDoctor ''k7Qd'' ''Dr. Mehta''
        (idle_dashboard (sample_store False))) = ''Doctor Dr. Mehta has been deleted''
   \<and> alertMessage (handleDeleteDoctor ''k7Qd'' ''Dr. Mehta''
        (idle_dashboard (sample_store True))) = ''Error deleting doctor''"
proof -
  let ?up = "idle_dashboard (sample_store False)"
  let ?down = "idle_dashboard (sample_store True)"
  have store: "admin_db ?up = sample_store False" "admin_db ?down = sample_store True"
    by (simp_all add: idle_dashboard_def)
  have ids: "distinct (map fst (colls (sample_store b) ''doctors''))" for b
    by (simp add: sample_store_def sample_doctor_def second_doctor_def)
  have ids_up: "distinct (map fst (colls (admin_db ?up) ''doctors''))"
    and ids_down: "distinct (map fst (colls (admin_db ?down) ''doctors''))"
    using ids by (simp_all add: store)
  have content: "\<not> rejects (sample_store False)" "rejects (sample_store True)"
    "filter (\<lambda>d. fst d \<noteq> ''k7Qd'') (colls (sample_store False) ''doctors'') = [second_doctor]"
    "colls (sample_store False) ''admins'' = [sample_admin]"
    by (simp_all add: sample_store_def sample_doctor_def second_doctor_def)
  from delete_doctor_frame [of ?up "''k7Qd''" "''Dr. Mehta''", OF ids_up]
    delete_doctor_frame [of ?down "''k7Qd''" "''Dr. Mehta''", OF ids_down] ids [of False]
  show ?thesis
    by (simp add: store content)
qed

text \<open>
  C10. Creating a doctor and deleting a doctor, whether the store accepts or rejects,
  show the banner and start one timer of 3000 ms that hides it.
\<close>

theorem banner_every_outcome:
  "showAlert (handleCreateDoctor f pg)
   \<and> banner_timers (handleCreateDoctor f pg) = banner_timers pg @ [(3000, HideAlert)]
   \<and> showAlert (handleDeleteDoctor i n pg)
   \<and> banner_timers (handleDeleteDoctor i n pg) = banner_timers pg @ [(3000, HideAlert)]
   \<and> \<not> showAlert (fire_admin HideAlert (handleCreateDoctor f pg))
   \<and> \<not> showAlert (fire_admin HideAlert (handleDeleteDoctor i n pg))"
  by (simp add: admin_defs)

end
